theory Spec2Isabelle
  imports Complex_Main "HOL-Library.AList"
begin

section \<open>JavaScript values and the built-ins the viewer calls\<close>

text \<open>
  A JavaScript string is a sequence of UTF-16 code units; a code unit is modelled by its
  number. \<open>str\<close> writes an ASCII literal.
\<close>

type_synonym jsstring = "nat list"

definition str :: "string \<Rightarrow> jsstring" where
  "str s = map of_char s"

text \<open>
  A JavaScript number: not-a-number, an infinity, or a finite decimal \<open>m * 10^e\<close>.
  The value of a literal is kept exactly; JavaScript rounds it to a double, which is the
  same number for every integer below \<open>2^53\<close>.
\<close>

datatype jsnum = NaN | PosInfinity | NegInfinity | Finite int int

definition isNaN :: "jsnum \<Rightarrow> bool" where
  "isNaN x = (case x of NaN \<Rightarrow> True | _ \<Rightarrow> False)"

definition negate :: "jsnum \<Rightarrow> jsnum" where
  "negate x = (case x of NaN \<Rightarrow> NaN | PosInfinity \<Rightarrow> NegInfinity
     | NegInfinity \<Rightarrow> PosInfinity | Finite m e \<Rightarrow> Finite (- m) e)"

text \<open>\<open>k + x\<close> for an integer \<open>k\<close>.\<close>

definition add_int :: "int \<Rightarrow> jsnum \<Rightarrow> jsnum" where
  "add_int k x = (case x of
       Finite m e \<Rightarrow> if 0 \<le> e then Finite (k + m * 10 ^ nat e) 0
                     else Finite (k * 10 ^ nat (- e) + m) e
     | _ \<Rightarrow> x)"

text \<open>
  ToUint16 of ECMAScript: a value that is not finite gives 0; a finite one is truncated
  towards zero and taken modulo \<open>2^16\<close>.
\<close>

definition ToUint16 :: "jsnum \<Rightarrow> nat" where
  "ToUint16 x = (case x of
       Finite m e \<Rightarrow>
         nat ((if 0 \<le> e then m * 10 ^ nat e else sgn m * (\<bar>m\<bar> div 10 ^ nat (- e))) mod 65536)
     | _ \<Rightarrow> 0)"

definition fromCharCode :: "jsnum \<Rightarrow> jsstring" where
  "fromCharCode x = [ToUint16 x]"

text \<open>
  White space and line terminators of ECMAScript, which both \<open>String.prototype.trim\<close>
  and the conversion of a string to a number strip: TAB, LF, VT, FF, CR, SP, NBSP,
  U+1680, U+2000 to U+200A, U+2028, U+2029, U+202F, U+205F, U+3000, U+FEFF.
\<close>

definition isStrWhiteSpaceChar :: "nat \<Rightarrow> bool" where
  "isStrWhiteSpaceChar c =
     (List.member [9, 10, 11, 12, 13, 32, 160, 5760, 8232, 8233, 8239, 8287, 12288, 65279] c
      \<or> (8192 \<le> c \<and> c \<le> 8202))"

definition trim :: "jsstring \<Rightarrow> jsstring" where
  "trim s = rev (dropWhile isStrWhiteSpaceChar (rev (dropWhile isStrWhiteSpaceChar s)))"

text \<open>
  \<open>toUpperCase\<close> on the ASCII letters. The Unicode case tables are not modelled: a code
  unit from 128 on is left as it is.
\<close>

definition toUpperCase :: "jsstring \<Rightarrow> jsstring" where
  "toUpperCase s = map (\<lambda>c. if 97 \<le> c \<and> c \<le> 122 then c - 32 else c) s"

subsection \<open>Number(string): the StringNumericLiteral grammar\<close>

definition isDecimalDigit :: "nat \<Rightarrow> bool" where
  "isDecimalDigit c = (48 \<le> c \<and> c \<le> 57)"

text \<open>The value of a digit in base \<open>b\<close> (\<open>0-9\<close>, \<open>a-z\<close>, \<open>A-Z\<close>), when it is one.\<close>

definition digitValue :: "nat \<Rightarrow> nat \<Rightarrow> nat option" where
  "digitValue b c =
     (if 48 \<le> c \<and> c \<le> 57 then (if c - 48 < b then Some (c - 48) else None)
      else if 97 \<le> c \<and> c \<le> 122 then (if c - 87 < b then Some (c - 87) else None)
      else if 65 \<le> c \<and> c \<le> 90 then (if c - 55 < b then Some (c - 55) else None)
      else None)"

fun digitsValue :: "nat \<Rightarrow> nat \<Rightarrow> jsstring \<Rightarrow> nat option" where
  "digitsValue b acc [] = Some acc"
| "digitsValue b acc (c # cs) =
     (case digitValue b c of None \<Rightarrow> None | Some d \<Rightarrow> digitsValue b (acc * b + d) cs)"

text \<open>One or more digits of base \<open>b\<close>, and nothing else.\<close>

definition integerLiteral :: "nat \<Rightarrow> jsstring \<Rightarrow> nat option" where
  "integerLiteral b ds = (if ds = [] then None else digitsValue b 0 ds)"

text \<open>What follows the mantissa: nothing, or \<open>e\<close>/\<open>E\<close> and a signed integer.\<close>

definition exponentPart :: "jsstring \<Rightarrow> int option" where
  "exponentPart r = (case r of
       [] \<Rightarrow> Some 0
     | c # ds \<Rightarrow>
         if c = 101 \<or> c = 69 then
           (case ds of
              [] \<Rightarrow> None
            | d # ds' \<Rightarrow>
                if d = 43 then map_option int (integerLiteral 10 ds')
                else if d = 45 then map_option (\<lambda>n. - int n) (integerLiteral 10 ds')
                else map_option int (integerLiteral 10 ds))
         else None)"

text \<open>
  StrUnsignedDecimalLiteral: \<open>Infinity\<close>, or digits with an optional fraction and
  exponent, or a fraction that starts with the dot.
\<close>

definition strUnsignedDecimalLiteral :: "jsstring \<Rightarrow> jsnum" where
  "strUnsignedDecimalLiteral t =
     (if t = str ''Infinity'' then PosInfinity
      else
        let ip = takeWhile isDecimalDigit t;
            r1 = dropWhile isDecimalDigit t;
            fp = (case r1 of [] \<Rightarrow> [] | c # r \<Rightarrow> if c = 46 then takeWhile isDecimalDigit r else []);
            r2 = (case r1 of [] \<Rightarrow> [] | c # r \<Rightarrow> if c = 46 then dropWhile isDecimalDigit r else r1)
        in if ip = [] \<and> fp = [] then NaN
           else (case digitsValue 10 0 (ip @ fp) of
                   None \<Rightarrow> NaN
                 | Some m \<Rightarrow>
                     (case exponentPart r2 of
                        None \<Rightarrow> NaN
                      | Some e \<Rightarrow> Finite (int m) (e - int (length fp)))))"

definition strDecimalLiteral :: "jsstring \<Rightarrow> jsnum" where
  "strDecimalLiteral t = (case t of
       [] \<Rightarrow> NaN
     | c # r \<Rightarrow>
         if c = 43 then strUnsignedDecimalLiteral r
         else if c = 45 then negate (strUnsignedDecimalLiteral r)
         else strUnsignedDecimalLiteral t)"

text \<open>The literals \<open>0x\<close>, \<open>0o\<close> and \<open>0b\<close> take no sign.\<close>

definition nonDecimalIntegerLiteral :: "nat \<Rightarrow> jsstring \<Rightarrow> jsnum" where
  "nonDecimalIntegerLiteral b ds =
     (case integerLiteral b ds of None \<Rightarrow> NaN | Some n \<Rightarrow> Finite (int n) 0)"

definition strNumericLiteral :: "jsstring \<Rightarrow> jsnum" where
  "strNumericLiteral t = (case t of
       c # d # r \<Rightarrow>
         if c = 48 \<and> (d = 120 \<or> d = 88) then nonDecimalIntegerLiteral 16 r
         else if c = 48 \<and> (d = 111 \<or> d = 79) then nonDecimalIntegerLiteral 8 r
         else if c = 48 \<and> (d = 98 \<or> d = 66) then nonDecimalIntegerLiteral 2 r
         else strDecimalLiteral t
     | _ \<Rightarrow> strDecimalLiteral t)"

text \<open>StringToNumber: the empty string and a string of white space are 0.\<close>

definition StringToNumber :: "jsstring \<Rightarrow> jsnum" where
  "StringToNumber s = (let t = trim s in if t = [] then Finite 0 0 else strNumericLiteral t)"

text \<open>The decimal digits of a natural number, as a template literal prints it.\<close>

fun decimal :: "nat \<Rightarrow> jsstring" where
  "decimal n = (if n < 10 then [48 + n] else decimal (n div 10) @ [48 + n mod 10])"

declare decimal.simps [simp del]

section \<open>The data model of the page\<close>

text \<open>
  \<open>interface Option { text: string }\<close> has one field; an option is modelled by its text.
\<close>

type_synonym Option = jsstring

text \<open>
  \<open>answer?: string | string[] | number\<close>. The test document is JSON from the content
  server, which can also hold \<open>null\<close>.
\<close>

datatype Answer = StringA jsstring | ArrayA "jsstring list" | NumberA jsnum | NullA

record Problem =
  text' :: jsstring
  passage_text :: "jsstring option"
  options :: "Option list option"
  solution :: "jsstring option"
  answer :: "Answer option"

text \<open>
  A field that an object lacks is modelled by the value every read of the source gives
  it: \<open>false\<close> for a flag (\<open>x?.submitted\<close> in a condition, \<open>x?.hintLoading || false\<close>),
  \<open>0\<close> for a count (\<open>x?.hintsUsed || 0\<close>), the empty list for \<open>x?.aiHints || []\<close>,
  and \<open>None\<close> for a field declared optional.
\<close>

record SolutionState =
  hintLoading :: bool
  solutionLoading :: bool
  aiHints :: "jsstring list"
  aiSolution :: "jsstring option"
  hintError :: "jsstring option"
  solutionError :: "jsstring option"
  showPanel :: bool

record QuestionState =
  selectedAnswer :: "jsstring option"
  submitted :: bool
  hintsUsed :: int
  score :: int
  isCorrect :: "bool option"

text \<open>
  \<open>Record<string, T>\<close>: an association list in the insertion order that
  \<open>Object.values\<close> follows, each key once. \<open>AList.update\<close> is the spread
  \<open>{...prev, [key]: v}\<close>: the value of a key that is there is replaced where it stands,
  a new key goes to the end.
\<close>

type_synonym 'v Record = "(jsstring \<times> 'v) list"

definition Object_values :: "'v Record \<Rightarrow> 'v list" where
  "Object_values r = map snd r"

text \<open>
  \<open>{...prev[problemKey]}\<close>: the fields of the entry, none when the key has no entry.
\<close>

definition noSolutionState :: SolutionState where
  "noSolutionState = \<lparr>hintLoading = False, solutionLoading = False, aiHints = [],
     aiSolution = None, hintError = None, solutionError = None, showPanel = False\<rparr>"

definition noQuestionState :: QuestionState where
  "noQuestionState = \<lparr>selectedAnswer = None, submitted = False, hintsUsed = 0, score = 0,
     isCorrect = None\<rparr>"

definition spreadS :: "SolutionState Record \<Rightarrow> jsstring \<Rightarrow> SolutionState" where
  "spreadS r k = (case map_of r k of None \<Rightarrow> noSolutionState | Some s \<Rightarrow> s)"

definition spreadQ :: "QuestionState Record \<Rightarrow> jsstring \<Rightarrow> QuestionState" where
  "spreadQ r k = (case map_of r k of None \<Rightarrow> noQuestionState | Some q \<Rightarrow> q)"

text \<open>The state of the component \<open>Home\<close> that the operations read and write.\<close>

record Home =
  solutions :: "SolutionState Record"
  questionStates :: "QuestionState Record"
  testSubmitted :: bool
  defaultHintPrompt :: jsstring
  customHintPrompt :: jsstring
  defaultSolutionPrompt :: jsstring
  customSolutionPrompt :: jsstring

text \<open>
  The state when the component mounts (the initial values of \<open>useState\<close>), and the
  reset that \<open>fetchTest\<close> makes before it loads a test.
\<close>

definition DEFAULT_PROMPT_PLACEHOLDER :: jsstring where
  "DEFAULT_PROMPT_PLACEHOLDER = str ''Loading...''"

definition initialHome :: Home where
  "initialHome =
     \<lparr>solutions = [], questionStates = [], testSubmitted = False,
      defaultHintPrompt = DEFAULT_PROMPT_PLACEHOLDER, customHintPrompt = [],
      defaultSolutionPrompt = DEFAULT_PROMPT_PLACEHOLDER, customSolutionPrompt = []\<rparr>"

definition fetchTest_reset :: "Home \<Rightarrow> Home" where
  "fetchTest_reset st = st\<lparr>solutions := [], questionStates := [], testSubmitted := False\<rparr>"

section \<open>Answering and scoring\<close>

text \<open>
  An event handler runs on the state of the last render, and React applies its functional
  update before the next one: \<open>prev\<close> is the state the handler read.
\<close>

definition selectAnswer :: "jsstring \<Rightarrow> jsstring \<Rightarrow> Home \<Rightarrow> Home" where
  "selectAnswer problemKey answer' st =
     (if testSubmitted st \<or> submitted (spreadQ (questionStates st) problemKey) then st
      else
        let prev = questionStates st in
        st\<lparr>questionStates := AList.update problemKey
             ((spreadQ prev problemKey)\<lparr>
                selectedAnswer := Some answer',
                submitted := False,
                hintsUsed := hintsUsed (spreadQ prev problemKey),
                score := 0\<rparr>)
             prev\<rparr>)"

text \<open>What \<open>problem.answer\<close> is once an array is replaced by its first element.\<close>

datatype RawAnswer = Undefined | Null | NumberV jsnum | StringV jsstring

definition Number :: "RawAnswer \<Rightarrow> jsnum" where
  "Number v = (case v of
       Undefined \<Rightarrow> NaN
     | Null \<Rightarrow> Finite 0 0
     | NumberV n \<Rightarrow> n
     | StringV s \<Rightarrow> StringToNumber s)"

definition rawAnswer :: "Problem \<Rightarrow> RawAnswer" where
  "rawAnswer problem = (case answer problem of
       None \<Rightarrow> Undefined
     | Some (ArrayA xs) \<Rightarrow> (case xs of [] \<Rightarrow> Undefined | x # _ \<Rightarrow> StringV x)
     | Some (StringA s) \<Rightarrow> StringV s
     | Some (NumberA n) \<Rightarrow> NumberV n
     | Some NullA \<Rightarrow> Null)"

text \<open>
  \<open>getCorrectAnswer\<close>. In the last line \<open>rawAnswer\<close> is no number, and
  \<open>String(rawAnswer || '')\<close> is the string itself, or empty for \<open>undefined\<close>,
  \<open>null\<close> and the empty string.
\<close>

definition getCorrectAnswer :: "Problem \<Rightarrow> jsstring" where
  "getCorrectAnswer problem =
     (case rawAnswer problem of
        NumberV n \<Rightarrow> fromCharCode (add_int 64 n)
      | raw \<Rightarrow>
          if \<not> isNaN (Number raw) then fromCharCode (add_int 64 (Number raw))
          else trim (toUpperCase (case raw of StringV s \<Rightarrow> s | _ \<Rightarrow> [])))"

text \<open>
  \<open>submitQuestion\<close>. \<open>!state?.selectedAnswer\<close> holds when there is no entry, no
  selection, or the selection is the empty string.
\<close>

definition submitQuestion :: "jsstring \<Rightarrow> Problem \<Rightarrow> Home \<Rightarrow> Home" where
  "submitQuestion problemKey problem st =
     (case map_of (questionStates st) problemKey of
        None \<Rightarrow> st
      | Some state \<Rightarrow>
          (case selectedAnswer state of
             None \<Rightarrow> st
           | Some selected \<Rightarrow>
               if selected = [] \<or> submitted state then st
               else
                 let correctAnswer = getCorrectAnswer problem;
                     isCorrect' = (selected = correctAnswer);
                     score' = (if isCorrect' then max 0 (4 - hintsUsed state) else 0);
                     prev = questionStates st
                 in st\<lparr>questionStates := AList.update problemKey
                      ((spreadQ prev problemKey)\<lparr>
                         submitted := True,
                         isCorrect := Some isCorrect',
                         score := score'\<rparr>)
                      prev\<rparr>))"

definition submitTest :: "Home \<Rightarrow> Home" where
  "submitTest st = st\<lparr>testSubmitted := True\<rparr>"

definition calculateTotalScore :: "Home \<Rightarrow> int" where
  "calculateTotalScore st =
     foldl (\<lambda>total state. total + (if submitted state then score state else 0)) 0
       (Object_values (questionStates st))"

definition countAnsweredQuestions :: "Home \<Rightarrow> nat" where
  "countAnsweredQuestions st = length (filter submitted (Object_values (questionStates st)))"

section \<open>Hints and solutions\<close>

text \<open>
  \<open>a || b\<close> on an optional string: \<open>b\<close> when \<open>a\<close> is absent or empty.
\<close>

definition orDefault :: "jsstring option \<Rightarrow> jsstring \<Rightarrow> jsstring" where
  "orDefault a b = (case a of None \<Rightarrow> b | Some s \<Rightarrow> if s = [] then b else s)"

text \<open>The JSON body that the page posts to \<open>/api/generate-solution\<close>.\<close>

record RequestBody =
  questionText :: jsstring
  passageText :: "jsstring option"
  options' :: "Option list option"
  type' :: jsstring
  previousHints :: "jsstring list option"
  customPrompt :: "jsstring option"

text \<open>
  How the request ends, as the page sees it: a 2xx response with \<open>{solution}\<close>; a
  response that is not ok, with \<open>data.error\<close> when the body has one; or an exception
  of \<open>fetch\<close> or \<open>response.json()\<close>, with its message when it is an \<open>Error\<close>.
\<close>

datatype Reply = Ok_reply jsstring | Error_reply "jsstring option" | Thrown "jsstring option"

text \<open>
  \<open>generateHint\<close> up to its \<open>await\<close>: the body it posts and the state it leaves. The
  function has no condition before the \<open>fetch\<close>: every call posts one request.
\<close>

definition generateHint_body :: "jsstring \<Rightarrow> Problem \<Rightarrow> Home \<Rightarrow> RequestBody" where
  "generateHint_body problemKey problem st =
     \<lparr>questionText = text' problem,
      passageText = passage_text problem,
      options' = options problem,
      type' = str ''hint'',
      previousHints = Some (aiHints (spreadS (solutions st) problemKey)),
      customPrompt =
        (if customHintPrompt st \<noteq> defaultHintPrompt st then Some (customHintPrompt st) else None)\<rparr>"

definition generateHint_pending :: "jsstring \<Rightarrow> Home \<Rightarrow> Home" where
  "generateHint_pending problemKey st =
     (let prev = solutions st in
      st\<lparr>solutions := AList.update problemKey
           ((spreadS prev problemKey)\<lparr>
              hintLoading := True,
              solutionLoading := solutionLoading (spreadS prev problemKey),
              aiHints := aiHints (spreadS prev problemKey),
              showPanel := True\<rparr>)
           prev\<rparr>)"

definition generateHint :: "jsstring \<Rightarrow> Problem \<Rightarrow> Home \<Rightarrow> Home \<times> RequestBody list" where
  "generateHint problemKey problem st =
     (generateHint_pending problemKey st, [generateHint_body problemKey problem st])"

text \<open>
  The rest of \<open>generateHint\<close>, run on the state of the moment the request ends: the two
  updates of the \<open>try\<close> block, or the one of the \<open>catch\<close> block.
\<close>

definition generateHint_then :: "jsstring \<Rightarrow> jsstring \<Rightarrow> Home \<Rightarrow> Home" where
  "generateHint_then problemKey data_solution st =
     (let prevS = solutions st; prevQ = questionStates st in
      st\<lparr>solutions := AList.update problemKey
           ((spreadS prevS problemKey)\<lparr>
              hintLoading := False,
              aiHints := aiHints (spreadS prevS problemKey) @ [data_solution]\<rparr>)
           prevS,
         questionStates := AList.update problemKey
           ((spreadQ prevQ problemKey)\<lparr>
              hintsUsed := hintsUsed (spreadQ prevQ problemKey) + 1,
              submitted := submitted (spreadQ prevQ problemKey),
              score := score (spreadQ prevQ problemKey)\<rparr>)
           prevQ\<rparr>)"

definition generateHint_catch :: "jsstring \<Rightarrow> jsstring option \<Rightarrow> Home \<Rightarrow> Home" where
  "generateHint_catch problemKey err_message st =
     (let prev = solutions st in
      st\<lparr>solutions := AList.update problemKey
           ((spreadS prev problemKey)\<lparr>
              hintLoading := False,
              hintError := Some (case err_message of
                                   Some m \<Rightarrow> m
                                 | None \<Rightarrow> str ''Failed to generate hint'')\<rparr>)
           prev\<rparr>)"

definition generateHint_done :: "jsstring \<Rightarrow> Reply \<Rightarrow> Home \<Rightarrow> Home" where
  "generateHint_done problemKey reply st = (case reply of
       Ok_reply data_solution \<Rightarrow> generateHint_then problemKey data_solution st
     | Error_reply data_error \<Rightarrow>
         generateHint_catch problemKey
           (Some (orDefault data_error (str ''Failed to generate hint''))) st
     | Thrown err_message \<Rightarrow> generateHint_catch problemKey err_message st)"

text \<open>
  The hint button: rendered while the question is open and has options, and disabled
  while \<open>solutionState?.hintLoading\<close>. A click on a button that is not rendered or is
  disabled calls nothing.
\<close>

definition hintButton_disabled :: "jsstring \<Rightarrow> Home \<Rightarrow> bool" where
  "hintButton_disabled problemKey st = hintLoading (spreadS (solutions st) problemKey)"

definition hintButton_rendered :: "jsstring \<Rightarrow> Problem \<Rightarrow> Home \<Rightarrow> bool" where
  "hintButton_rendered problemKey problem st =
     (\<not> (submitted (spreadQ (questionStates st) problemKey) \<or> testSubmitted st)
      \<and> (case options problem of None \<Rightarrow> False | Some os \<Rightarrow> 0 < length os))"

definition hintButton_onClick ::
    "jsstring \<Rightarrow> Problem \<Rightarrow> Home \<Rightarrow> Home \<times> RequestBody list" where
  "hintButton_onClick problemKey problem st =
     (if hintButton_rendered problemKey problem st \<and> \<not> hintButton_disabled problemKey st
      then generateHint problemKey problem st
      else (st, []))"

text \<open>\<open>generateSolution\<close>, in the same three parts.\<close>

definition generateSolution_body :: "Problem \<Rightarrow> Home \<Rightarrow> RequestBody" where
  "generateSolution_body problem st =
     \<lparr>questionText = text' problem,
      passageText = passage_text problem,
      options' = options problem,
      type' = str ''solution'',
      previousHints = None,
      customPrompt =
        (if customSolutionPrompt st \<noteq> defaultSolutionPrompt st
         then Some (customSolutionPrompt st) else None)\<rparr>"

definition generateSolution_pending :: "jsstring \<Rightarrow> Home \<Rightarrow> Home" where
  "generateSolution_pending problemKey st =
     (let prev = solutions st in
      st\<lparr>solutions := AList.update problemKey
           ((spreadS prev problemKey)\<lparr>
              solutionLoading := True,
              hintLoading := hintLoading (spreadS prev problemKey),
              aiHints := aiHints (spreadS prev problemKey),
              showPanel := True\<rparr>)
           prev\<rparr>)"

definition generateSolution :: "jsstring \<Rightarrow> Problem \<Rightarrow> Home \<Rightarrow> Home \<times> RequestBody list" where
  "generateSolution problemKey problem st =
     (generateSolution_pending problemKey st, [generateSolution_body problem st])"

definition generateSolution_then :: "jsstring \<Rightarrow> jsstring \<Rightarrow> Home \<Rightarrow> Home" where
  "generateSolution_then problemKey data_solution st =
     (let prev = solutions st in
      st\<lparr>solutions := AList.update problemKey
           ((spreadS prev problemKey)\<lparr>
              solutionLoading := False,
              aiSolution := Some data_solution\<rparr>)
           prev\<rparr>)"

definition generateSolution_catch :: "jsstring \<Rightarrow> jsstring option \<Rightarrow> Home \<Rightarrow> Home" where
  "generateSolution_catch problemKey err_message st =
     (let prev = solutions st in
      st\<lparr>solutions := AList.update problemKey
           ((spreadS prev problemKey)\<lparr>
              solutionLoading := False,
              solutionError := Some (case err_message of
                                       Some m \<Rightarrow> m
                                     | None \<Rightarrow> str ''Failed to generate solution'')\<rparr>)
           prev\<rparr>)"

definition generateSolution_done :: "jsstring \<Rightarrow> Reply \<Rightarrow> Home \<Rightarrow> Home" where
  "generateSolution_done problemKey reply st = (case reply of
       Ok_reply data_solution \<Rightarrow> generateSolution_then problemKey data_solution st
     | Error_reply data_error \<Rightarrow>
         generateSolution_catch problemKey
           (Some (orDefault data_error (str ''Failed to generate solution''))) st
     | Thrown err_message \<Rightarrow> generateSolution_catch problemKey err_message st)"

text \<open>
  A request has failed when its reply is not a 2xx response. The message that the
  \<open>catch\<close> block then stores: \<open>data.error\<close> or the default text for a response
  that is not ok, \<open>err.message\<close> for an \<open>Error\<close>, the default text otherwise.
\<close>

definition failed :: "Reply \<Rightarrow> bool" where
  "failed reply = (case reply of Ok_reply _ \<Rightarrow> False | _ \<Rightarrow> True)"

definition hintFailureMessage :: "Reply \<Rightarrow> jsstring" where
  "hintFailureMessage reply = (case reply of
       Error_reply data_error \<Rightarrow> orDefault data_error (str ''Failed to generate hint'')
     | Thrown (Some m) \<Rightarrow> m
     | _ \<Rightarrow> str ''Failed to generate hint'')"

definition solutionFailureMessage :: "Reply \<Rightarrow> jsstring" where
  "solutionFailureMessage reply = (case reply of
       Error_reply data_error \<Rightarrow> orDefault data_error (str ''Failed to generate solution'')
     | Thrown (Some m) \<Rightarrow> m
     | _ \<Rightarrow> str ''Failed to generate solution'')"

section \<open>The generation endpoint: building the prompt\<close>

definition nl :: jsstring where
  "nl = [10]"

text \<open>\<open>Array.prototype.join\<close> on strings.\<close>

fun join :: "jsstring \<Rightarrow> jsstring list \<Rightarrow> jsstring" where
  "join sep [] = []"
| "join sep [x] = x"
| "join sep (x # y # ys) = x @ sep @ join sep (y # ys)"

text \<open>
  The two default templates, line by line: the lines before the first token, then the
  rest. \<open>[39]\<close> is the apostrophe.
\<close>

definition solutionPromptIntro :: "jsstring list" where
  "solutionPromptIntro =
     [str ''You are a very smart student, attempting the Joint Entrance Examination (JEE) Advanced of the Indian Institutes of Technology (IIT).'',
      [],
      str ''Read the instructions below carefully, and then answer the question.'',
      [],
      str ''IMPORTANT: Mathematical equations in the question are written in LaTeX notation (e.g., $x^2$ for inline math, $$E=mc^2$$ for display math). Parse and interpret them correctly.'',
      [],
      str ''The question may reference a diagram. If there is a discrepancy between the text and any diagram description, you should use the information from the text.'',
      [],
      str ''Remember that the questions are constructed very carefully, and do not contain any errors - so read the question carefully and answer the question as asked.'',
      [],
      str ''---'',
      []]"

definition solutionPromptOutro :: "jsstring list" where
  "solutionPromptOutro =
     [[],
      str ''---'',
      [],
      str ''Answer the question above.'',
      [],
      str ''Follow carefully any instructions given in the question.'',
      [],
      str ''Ensure that your solution ends with the sentence of the form:'',
      [39] @ str ''The correct answer is ...'' @ [39] @ str '', where ... is your answer.'',
      [],
      str ''If the question is a multiple choice question, your answer should be the letter corresponding to the correct answer.'']"

definition DEFAULT_SOLUTION_PROMPT :: jsstring where
  "DEFAULT_SOLUTION_PROMPT =
     join nl (solutionPromptIntro @ [str ''{{QUESTION_CONTENT}}''] @ solutionPromptOutro)"

definition hintPromptIntro :: "jsstring list" where
  "hintPromptIntro =
     [str ''You are a very smart student, attempting the Joint Entrance Examination (JEE) Advanced of the Indian Institutes of Technology (IIT).'',
      [],
      str ''Read the instructions below carefully, provide one hint that would allow reattempting the question. DO NOT PROVIDE THE ANSWER. The goal of the hint is to tell the student specific and sharp problem solving steps - focus on these and not on explaining theory. After each hint show one step of the solution.'',
      [],
      str ''IMPORTANT: Mathematical equations in the question are written in LaTeX notation (e.g., $x^2$ for inline math, $E=mc^2$ for display math). Parse and interpret them correctly.'',
      [],
      str ''The question may reference a diagram. If there is a discrepancy between the text and any diagram description, you should use the information from the text.'',
      [],
      str ''Remember that the questions are constructed very carefully, and do not contain any errors - so read the question and follow instructions very carefully.'',
      [],
      str ''---'',
      []]"

definition DEFAULT_HINT_PROMPT :: jsstring where
  "DEFAULT_HINT_PROMPT =
     join nl
       (hintPromptIntro @
        [str ''{{QUESTION_CONTENT}}'',
         [],
         str ''---'',
         [],
         str ''{{HINT_INSTRUCTIONS}}''])"

text \<open>
  \<open>String.prototype.replace\<close> with a string pattern. It replaces the first occurrence
  only, and the replacement text is a template: GetSubstitution of ECMAScript turns
  \<open>$$\<close> into \<open>$\<close>, \<open>$&\<close> into the matched text, \<open>$`\<close> into the text before the
  match and \<open>$'\<close> into the text after it. A string pattern has no captures, so
  \<open>$1\<close> and \<open>$<\<close> stay as they are. The code units: \<open>$\<close> 36, \<open>&\<close> 38,
  \<open>'\<close> 39, \<open>`\<close> 96.
\<close>

fun startsWith :: "jsstring \<Rightarrow> jsstring \<Rightarrow> jsstring option" where
  "startsWith [] s = Some s"
| "startsWith (p # ps) [] = None"
| "startsWith (p # ps) (c # cs) = (if p = c then startsWith ps cs else None)"

text \<open>The text before and after the first occurrence of the pattern, when there is one.\<close>

fun splitAtFirst :: "jsstring \<Rightarrow> jsstring \<Rightarrow> (jsstring \<times> jsstring) option" where
  "splitAtFirst pat [] = (case startsWith pat [] of None \<Rightarrow> None | Some r \<Rightarrow> Some ([], r))"
| "splitAtFirst pat (c # cs) =
     (case startsWith pat (c # cs) of
        Some r \<Rightarrow> Some ([], r)
      | None \<Rightarrow> (case splitAtFirst pat cs of None \<Rightarrow> None | Some (b, a) \<Rightarrow> Some (c # b, a)))"

fun GetSubstitution :: "jsstring \<Rightarrow> jsstring \<Rightarrow> jsstring \<Rightarrow> jsstring \<Rightarrow> jsstring" where
  "GetSubstitution matched preceding following [] = []"
| "GetSubstitution matched preceding following [c] = [c]"
| "GetSubstitution matched preceding following (c # d # r) =
     (if c = 36 \<and> d = 36 then 36 # GetSubstitution matched preceding following r
      else if c = 36 \<and> d = 38 then matched @ GetSubstitution matched preceding following r
      else if c = 36 \<and> d = 96 then preceding @ GetSubstitution matched preceding following r
      else if c = 36 \<and> d = 39 then following @ GetSubstitution matched preceding following r
      else c # GetSubstitution matched preceding following (d # r))"

definition replace :: "jsstring \<Rightarrow> jsstring \<Rightarrow> jsstring \<Rightarrow> jsstring" where
  "replace s searchValue replaceValue =
     (case splitAtFirst searchValue s of
        None \<Rightarrow> s
      | Some (preceding, following) \<Rightarrow>
          preceding @ GetSubstitution searchValue preceding following replaceValue @ following)"

text \<open>
  What the specification calls substituting verbatim: the first occurrence of the token
  gives way to the text as it is.
\<close>

definition substituteVerbatim :: "jsstring \<Rightarrow> jsstring \<Rightarrow> jsstring \<Rightarrow> jsstring" where
  "substituteVerbatim s token txt =
     (case splitAtFirst token s of
        None \<Rightarrow> s
      | Some (preceding, following) \<Rightarrow> preceding @ txt @ following)"

text \<open>The handler \<open>POST\<close> up to the call of the model provider.\<close>

fun optionLines :: "nat \<Rightarrow> Option list \<Rightarrow> jsstring" where
  "optionLines idx [] = []"
| "optionLines idx (opt # opts) =
     fromCharCode (Finite (65 + int idx) 0) @ str ''. '' @ opt @ nl @ optionLines (Suc idx) opts"

definition questionContent :: "RequestBody \<Rightarrow> jsstring" where
  "questionContent body =
     (case passageText body of
        None \<Rightarrow> []
      | Some p \<Rightarrow> if p = [] then [] else str ''**Passage:**'' @ nl @ p @ nl @ nl)
     @ str ''**Question:**'' @ nl @ questionText body @ nl @ nl
     @ (case options' body of
          None \<Rightarrow> []
        | Some opts \<Rightarrow>
            if 0 < length opts then str ''**Options:**'' @ nl @ optionLines 0 opts else [])"

fun hintLines :: "nat \<Rightarrow> jsstring list \<Rightarrow> jsstring list" where
  "hintLines idx [] = []"
| "hintLines idx (hint # hints) =
     (str ''Hint '' @ decimal (idx + 1) @ str '': '' @ hint) # hintLines (Suc idx) hints"

definition hintInstructions :: "RequestBody \<Rightarrow> jsstring" where
  "hintInstructions body =
     (case previousHints body of
        None \<Rightarrow>
          str ''Provide a helpful hint to guide toward solving this problem. Do NOT reveal the final answer.''
      | Some hints \<Rightarrow>
          if 0 < length hints then
            str ''Previously given hints:'' @ nl @ join nl (hintLines 0 hints) @ nl @ nl
            @ str ''Provide the next hint that builds on the previous hints above. Make it progressively more specific and detailed. Do NOT repeat information already given. Do NOT reveal the final answer.''
          else
            str ''Provide a helpful hint to guide toward solving this problem. Do NOT reveal the final answer.'')"

definition promptTemplate :: "RequestBody \<Rightarrow> jsstring" where
  "promptTemplate body =
     orDefault (customPrompt body)
       (if type' body = str ''hint'' then DEFAULT_HINT_PROMPT else DEFAULT_SOLUTION_PROMPT)"

definition finalPrompt :: "RequestBody \<Rightarrow> jsstring" where
  "finalPrompt body =
     replace
       (replace
          (replace (promptTemplate body) (str ''{{QUESTION_CONTENT}}'') (questionContent body))
          (str ''{{HINT_INSTRUCTIONS}}'') (hintInstructions body))
       (str ''{{PREVIOUS_HINTS}}'') (hintInstructions body)"

text \<open>
  \<open>Inl\<close> is the answer with status 400; \<open>Inr\<close> is the content of the message sent to
  the model provider.
\<close>

definition POST :: "RequestBody \<Rightarrow> jsstring + jsstring" where
  "POST body =
     (if questionText body = [] then Inl (str ''Question text is required'')
      else Inr (finalPrompt body))"

section \<open>A problem for the examples\<close>

text \<open>A question with four options and the given \<open>answer\<close> field.\<close>

definition problemWithAnswer :: "Answer option \<Rightarrow> Problem" where
  "problemWithAnswer a =
     \<lparr>text' = str ''Which one?'', passage_text = None,
      options = Some [str ''w'', str ''x'', str ''y'', str ''z''], solution = None, answer = a\<rparr>"

section \<open>Facts about the model\<close>

lemmas js_eval = str_def fromCharCode_def add_int_def ToUint16_def trim_def
  isStrWhiteSpaceChar_def toUpperCase_def isDecimalDigit_def digitValue_def integerLiteral_def
  exponentPart_def strUnsignedDecimalLiteral_def strDecimalLiteral_def
  nonDecimalIntegerLiteral_def strNumericLiteral_def StringToNumber_def Number_def
  rawAnswer_def getCorrectAnswer_def isNaN_def negate_def problemWithAnswer_def

lemma spreadS_update_same: "spreadS (AList.update k v al) k = v"
  by (simp add: spreadS_def update_conv')

lemma spreadQ_update_same: "spreadQ (AList.update k v al) k = v"
  by (simp add: spreadQ_def update_conv')

lemma spreadQ_Some: "map_of r k = Some q \<Longrightarrow> spreadQ r k = q"
  by (simp add: spreadQ_def)

text \<open>
  Every operation keeps each key once, so the association lists stay the objects they
  stand for.
\<close>

lemma questionStates_keys_distinct:
  assumes "distinct (map fst (questionStates st))"
  shows "distinct (map fst (questionStates (selectAnswer k a st)))"
    and "distinct (map fst (questionStates (submitQuestion k p st)))"
    and "distinct (map fst (questionStates (submitTest st)))"
    and "distinct (map fst (questionStates (generateHint_done k reply st)))"
    and "distinct (map fst (questionStates (generateSolution_done k reply st)))"
  using assms
  by (auto simp: selectAnswer_def submitQuestion_def submitTest_def generateHint_done_def
        generateHint_then_def generateHint_catch_def generateSolution_done_def
        generateSolution_then_def generateSolution_catch_def Let_def distinct_update
        split: option.splits Reply.splits)

lemma solutions_keys_distinct:
  assumes "distinct (map fst (solutions st))"
  shows "distinct (map fst (solutions (fst (generateHint k p st))))"
    and "distinct (map fst (solutions (fst (generateSolution k p st))))"
    and "distinct (map fst (solutions (generateHint_done k reply st)))"
    and "distinct (map fst (solutions (generateSolution_done k reply st)))"
  using assms
  by (auto simp: generateHint_def generateHint_pending_def generateSolution_def
        generateSolution_pending_def generateHint_done_def generateHint_then_def
        generateHint_catch_def generateSolution_done_def generateSolution_then_def
        generateSolution_catch_def Let_def distinct_update split: Reply.splits)

subsection \<open>The totals\<close>

lemma foldl_total:
  "foldl (\<lambda>total state. total + (if submitted state then score state else 0)) acc xs
     = acc + sum_list (map score (filter submitted xs))"
  by (induction xs arbitrary: acc) auto

lemma calculateTotalScore_sum:
  "calculateTotalScore st
     = sum_list (map score (filter submitted (Object_values (questionStates st))))"
  by (simp add: calculateTotalScore_def foldl_total)

text \<open>With each key once, a sum over the values is a sum over the keys.\<close>

lemma sum_over_keys:
  assumes "distinct (map fst r)"
  shows "sum_list (map f (filter P (map snd r)))
       = (\<Sum>k \<in> {k \<in> dom (map_of r). P (the (map_of r k))}. f (the (map_of r k)))"
  using assms
proof (induction r)
  case Nil
  then show ?case by simp
next
  case (Cons p r)
  obtain k v where p: "p = (k, v)" by (cases p)
  from Cons.prems p have notin: "k \<notin> dom (map_of r)" and d: "distinct (map fst r)"
    by (auto simp: dom_map_of_conv_image_fst)
  have fin: "finite (dom (map_of r))" by (rule finite_dom_map_of)
  let ?S = "{k' \<in> dom (map_of r). P (the (map_of r k'))}"
  have S': "{k' \<in> dom (map_of (p # r)). P (the (map_of (p # r) k'))}
          = (if P v then insert k ?S else ?S)"
    using notin p by auto
  have same: "(\<Sum>k' \<in> ?S. f (the (map_of (p # r) k'))) = (\<Sum>k' \<in> ?S. f (the (map_of r k')))"
    using notin p by (intro sum.cong) auto
  have kS: "k \<notin> ?S" using notin by simp
  have finS: "finite ?S" using fin by simp
  have lhs: "sum_list (map f (filter P (map snd (p # r))))
           = (if P v then f v else 0) + sum_list (map f (filter P (map snd r)))"
    using p by simp
  have here: "f (the (map_of (p # r) k)) = f v"
    using p by simp
  have rhs: "(\<Sum>k' \<in> {k' \<in> dom (map_of (p # r)). P (the (map_of (p # r) k'))}.
                f (the (map_of (p # r) k')))
           = (if P v then f v else 0) + (\<Sum>k' \<in> ?S. f (the (map_of r k')))"
  proof (cases "P v")
    case True
    then show ?thesis
      unfolding S' using sum.insert [OF finS kS, of "\<lambda>k'. f (the (map_of (p # r) k'))"] same here
      by simp
  next
    case False
    then show ?thesis
      unfolding S' using same by simp
  qed
  show ?case
    unfolding lhs rhs using Cons.IH [OF d] by simp
qed

lemma length_filter_over_keys:
  assumes "distinct (map fst r)"
  shows "length (filter P (map snd r)) = card {k \<in> dom (map_of r). P (the (map_of r k))}"
proof -
  have "length (filter P (map snd r)) = sum_list (map (\<lambda>_. 1::nat) (filter P (map snd r)))"
    by (simp add: sum_list_triv)
  also have "\<dots> = (\<Sum>k \<in> {k \<in> dom (map_of r). P (the (map_of r k))}. 1)"
    by (rule sum_over_keys [OF assms])
  finally show ?thesis by simp
qed

subsection \<open>The end of a request\<close>

lemma generateHint_done_failed:
  "failed reply \<Longrightarrow>
     generateHint_done k reply st =
       st\<lparr>solutions := AList.update k
            ((spreadS (solutions st) k)\<lparr>hintLoading := False,
                                        hintError := Some (hintFailureMessage reply)\<rparr>)
            (solutions st)\<rparr>"
  by (cases reply)
     (auto simp: failed_def generateHint_done_def generateHint_catch_def hintFailureMessage_def
        Let_def split: option.splits)

lemma generateHint_done_ok:
  "generateHint_done k (Ok_reply s) st =
     st\<lparr>solutions := AList.update k
          ((spreadS (solutions st) k)\<lparr>hintLoading := False,
                                      aiHints := aiHints (spreadS (solutions st) k) @ [s]\<rparr>)
          (solutions st),
        questionStates := AList.update k
          ((spreadQ (questionStates st) k)\<lparr>
             hintsUsed := hintsUsed (spreadQ (questionStates st) k) + 1\<rparr>)
          (questionStates st)\<rparr>"
  by (simp add: generateHint_done_def generateHint_then_def Let_def)

lemma generateSolution_done_failed:
  "failed reply \<Longrightarrow>
     generateSolution_done k reply st =
       st\<lparr>solutions := AList.update k
            ((spreadS (solutions st) k)\<lparr>solutionLoading := False,
                                        solutionError := Some (solutionFailureMessage reply)\<rparr>)
            (solutions st)\<rparr>"
  by (cases reply)
     (auto simp: failed_def generateSolution_done_def generateSolution_catch_def
        solutionFailureMessage_def Let_def split: option.splits)

lemma generateSolution_done_ok:
  "generateSolution_done k (Ok_reply s) st =
     st\<lparr>solutions := AList.update k
          ((spreadS (solutions st) k)\<lparr>solutionLoading := False, aiSolution := Some s\<rparr>)
          (solutions st)\<rparr>"
  by (simp add: generateSolution_done_def generateSolution_then_def Let_def)

lemma submitQuestion_questionStates_cong:
  "questionStates st' = questionStates st \<Longrightarrow>
     questionStates (submitQuestion k p st') = questionStates (submitQuestion k p st)"
  by (auto simp: submitQuestion_def Let_def split: option.splits)

subsection \<open>What \<open>getCorrectAnswer\<close> returns\<close>

lemma getCorrectAnswer_examples:
  "getCorrectAnswer (problemWithAnswer (Some (NumberA (Finite 1 0)))) = str ''A''"
  "getCorrectAnswer (problemWithAnswer (Some (StringA (str ''2'')))) = str ''B''"
  "getCorrectAnswer (problemWithAnswer (Some (StringA (str ''C'')))) = str ''C''"
  "getCorrectAnswer (problemWithAnswer (Some (ArrayA [str ''1'']))) = str ''A''"
  "getCorrectAnswer (problemWithAnswer (Some (StringA (str '' 3 '')))) = str ''C''"
  "getCorrectAnswer (problemWithAnswer (Some (StringA (str '' b '')))) = str ''B''"
  "getCorrectAnswer (problemWithAnswer None) = []"
  "getCorrectAnswer (problemWithAnswer (Some (ArrayA []))) = []"
  by (simp_all add: js_eval)

lemma getCorrectAnswer_array:
  "getCorrectAnswer (p\<lparr>answer := Some (ArrayA (x # xs))\<rparr>)
     = getCorrectAnswer (p\<lparr>answer := Some (StringA x)\<rparr>)"
  by (simp add: getCorrectAnswer_def rawAnswer_def)

lemma getCorrectAnswer_other_string:
  "isNaN (StringToNumber s) \<Longrightarrow>
     getCorrectAnswer (p\<lparr>answer := Some (StringA s)\<rparr>) = trim (toUpperCase s)"
  by (simp add: getCorrectAnswer_def rawAnswer_def Number_def)

lemma getCorrectAnswer_numeric_string:
  "\<not> isNaN (StringToNumber s) \<Longrightarrow>
     getCorrectAnswer (p\<lparr>answer := Some (StringA s)\<rparr>)
       = fromCharCode (add_int 64 (StringToNumber s))"
  by (simp add: getCorrectAnswer_def rawAnswer_def Number_def)

text \<open>White space around a string does not change the number it converts to.\<close>

lemma trim_whitespace_around:
  assumes "list_all isStrWhiteSpaceChar l" "list_all isStrWhiteSpaceChar r"
  shows "trim (l @ s @ r) = trim s"
proof -
  have drop_l: "dropWhile isStrWhiteSpaceChar (l @ xs) = dropWhile isStrWhiteSpaceChar xs" for xs
    using assms(1) by (induction l) auto
  have drop_r: "dropWhile isStrWhiteSpaceChar (rev r @ xs) = dropWhile isStrWhiteSpaceChar xs" for xs
  proof -
    have "list_all isStrWhiteSpaceChar (rev r)"
      using assms(2) by (simp add: list_all_iff)
    then show ?thesis by (induction "rev r" arbitrary: r) (auto simp: list_all_iff dropWhile_append)
  qed
  show ?thesis
  proof (cases "dropWhile isStrWhiteSpaceChar s = []")
    case True
    then have all: "list_all isStrWhiteSpaceChar s"
      by (simp add: list_all_iff dropWhile_eq_Nil_conv)
    have "list_all isStrWhiteSpaceChar (s @ r)"
      using all assms(2) by simp
    then have e: "dropWhile isStrWhiteSpaceChar (s @ r) = []"
      by (simp add: list_all_iff dropWhile_eq_Nil_conv)
    have "trim (l @ s @ r) = []"
      unfolding trim_def drop_l e by simp
    moreover have "trim s = []"
      unfolding trim_def True by simp
    ultimately show ?thesis by simp
  next
    case False
    then have "dropWhile isStrWhiteSpaceChar (s @ r) = dropWhile isStrWhiteSpaceChar s @ r"
      by (induction s) auto
    then show ?thesis
      by (simp add: trim_def drop_l drop_r)
  qed
qed

lemma StringToNumber_whitespace_around:
  "list_all isStrWhiteSpaceChar l \<Longrightarrow> list_all isStrWhiteSpaceChar r \<Longrightarrow>
     StringToNumber (l @ s @ r) = StringToNumber s"
  by (simp add: StringToNumber_def trim_whitespace_around)

subsection \<open>Replacing a token\<close>

lemma join_append:
  "xs \<noteq> [] \<Longrightarrow> ys \<noteq> [] \<Longrightarrow> join sep (xs @ ys) = join sep xs @ sep @ join sep ys"
proof (induction sep xs rule: join.induct)
  case (1 sep)
  then show ?case by simp
next
  case (2 sep x)
  then show ?case by (cases ys) simp_all
next
  case (3 sep x y ys')
  then show ?case by simp
qed

lemma notin_join:
  "c \<notin> set sep \<Longrightarrow> list_all (\<lambda>x. c \<notin> set x) xs \<Longrightarrow> c \<notin> set (join sep xs)"
  by (induction sep xs rule: join.induct) auto

lemma startsWith_self: "startsWith pat (pat @ r) = Some r"
  by (induction pat) auto

text \<open>
  A pattern whose first code unit does not occur before it is found where it stands; one
  whose first code unit does not occur at all is not found.
\<close>

lemma splitAtFirst_fresh:
  "c \<notin> set a \<Longrightarrow> splitAtFirst (c # ps) (a @ c # ps @ b) = Some (a, b)"
  by (induction a) (auto simp: startsWith_self)

lemma splitAtFirst_absent: "c \<notin> set s \<Longrightarrow> splitAtFirst (c # ps) s = None"
  by (induction s) auto

lemma replace_fresh:
  "c \<notin> set a \<Longrightarrow>
     replace (a @ c # ps @ b) (c # ps) rep = a @ GetSubstitution (c # ps) a b rep @ b"
  by (simp add: replace_def splitAtFirst_fresh)

lemma replace_absent: "c \<notin> set s \<Longrightarrow> replace s (c # ps) rep = s"
  by (simp add: replace_def splitAtFirst_absent)

lemma substituteVerbatim_fresh:
  "c \<notin> set a \<Longrightarrow> substituteVerbatim (a @ c # ps @ b) (c # ps) txt = a @ txt @ b"
  by (simp add: substituteVerbatim_def splitAtFirst_fresh)

text \<open>A replacement text without \<open>$\<close> is inserted as it is.\<close>

lemma GetSubstitution_plain: "36 \<notin> set rep \<Longrightarrow> GetSubstitution m b a rep = rep"
  by (induction m b a rep rule: GetSubstitution.induct) auto

lemma token_heads:
  "str ''{{QUESTION_CONTENT}}'' = 123 # str ''{QUESTION_CONTENT}}''"
  "str ''{{HINT_INSTRUCTIONS}}'' = 123 # str ''{HINT_INSTRUCTIONS}}''"
  "str ''{{PREVIOUS_HINTS}}'' = 123 # str ''{PREVIOUS_HINTS}}''"
  by (simp_all add: str_def)

lemma hintPromptIntro_no_brace: "123 \<notin> set (join nl hintPromptIntro)"
  by (rule notin_join) (simp_all add: hintPromptIntro_def nl_def str_def)

lemma DEFAULT_HINT_PROMPT_parts:
  "DEFAULT_HINT_PROMPT =
     (join nl hintPromptIntro @ nl) @ str ''{{QUESTION_CONTENT}}''
       @ (nl @ nl @ str ''---'' @ nl @ nl) @ str ''{{HINT_INSTRUCTIONS}}''"
proof -
  have "hintPromptIntro \<noteq> []" by (simp add: hintPromptIntro_def)
  then show ?thesis
    by (simp add: DEFAULT_HINT_PROMPT_def join_append)
qed

text \<open>
  The final prompt on the default hint template, when what \<open>replace\<close> makes of the
  question content is \<open>g\<close> and the hint instructions hold no \<open>$\<close> and no brace.
\<close>

lemma finalPrompt_default_hint:
  assumes tmpl: "promptTemplate body = DEFAULT_HINT_PROMPT"
    and q: "GetSubstitution (str ''{{QUESTION_CONTENT}}'') (join nl hintPromptIntro @ nl)
              ((nl @ nl @ str ''---'' @ nl @ nl) @ str ''{{HINT_INSTRUCTIONS}}'')
              (questionContent body) = g"
    and g: "123 \<notin> set g"
    and h: "36 \<notin> set (hintInstructions body)" "123 \<notin> set (hintInstructions body)"
  shows "finalPrompt body =
           (join nl hintPromptIntro @ nl) @ g @ (nl @ nl @ str ''---'' @ nl @ nl)
             @ hintInstructions body"
proof -
  let ?H = "join nl hintPromptIntro @ nl"
  let ?M = "nl @ nl @ str ''---'' @ nl @ nl"
  let ?hi = "hintInstructions body"
  have H: "123 \<notin> set ?H"
    using hintPromptIntro_no_brace by (simp add: nl_def)
  have M: "123 \<notin> set ?M"
    by (simp add: nl_def str_def)
  have s1: "replace (promptTemplate body) (str ''{{QUESTION_CONTENT}}'') (questionContent body)
              = ?H @ g @ ?M @ str ''{{HINT_INSTRUCTIONS}}''"
    unfolding tmpl DEFAULT_HINT_PROMPT_parts
    using replace_fresh [OF H, of "str ''{QUESTION_CONTENT}}''"
            "?M @ str ''{{HINT_INSTRUCTIONS}}''" "questionContent body"] q
    by (simp add: token_heads)
  have a2: "123 \<notin> set (?H @ g @ ?M)"
    using H M g by simp
  have s2: "replace (?H @ g @ ?M @ str ''{{HINT_INSTRUCTIONS}}'') (str ''{{HINT_INSTRUCTIONS}}'') ?hi
              = ?H @ g @ ?M @ ?hi"
    using replace_fresh [OF a2, of "str ''{HINT_INSTRUCTIONS}}''" "[]" ?hi]
      GetSubstitution_plain [OF h(1)]
    by (simp add: token_heads)
  have a3: "123 \<notin> set (?H @ g @ ?M @ ?hi)"
    using a2 h(2) by simp
  have s3: "replace (?H @ g @ ?M @ ?hi) (str ''{{PREVIOUS_HINTS}}'') ?hi = ?H @ g @ ?M @ ?hi"
    using replace_absent [OF a3] by (simp add: token_heads)
  show ?thesis
    unfolding finalPrompt_def s1 s2 s3 by simp
qed

text \<open>
  So a question content without \<open>$\<close> and without a brace goes into the default hint
  template as it is.
\<close>

lemma finalPrompt_default_hint_plain:
  assumes "promptTemplate body = DEFAULT_HINT_PROMPT"
    and "36 \<notin> set (questionContent body)" "123 \<notin> set (questionContent body)"
    and "36 \<notin> set (hintInstructions body)" "123 \<notin> set (hintInstructions body)"
  shows "finalPrompt body =
           (join nl hintPromptIntro @ nl) @ questionContent body
             @ (nl @ nl @ str ''---'' @ nl @ nl) @ hintInstructions body"
  using finalPrompt_default_hint [OF assms(1) GetSubstitution_plain [OF assms(2)] assms(3,4,5)] .

section \<open>The claims\<close>

text \<open>
  C1. \<open>submitQuestion\<close> leaves the state as it is when the key has no selected option
  (no entry, no selection, or the empty selection) or the question is already submitted.
  Otherwise it sets \<open>submitted\<close>, sets \<open>isCorrect\<close> to whether the selection equals
  \<open>getCorrectAnswer problem\<close>, and sets \<open>score\<close> to \<open>max 0 (4 - hintsUsed)\<close> for a
  correct answer and to 0 for a wrong one; nothing else changes. The score is never
  negative, and it is 0 with four or more hints.
\<close>

theorem submitQuestion_spec:
  "(map_of (questionStates st) k = None \<longrightarrow> submitQuestion k p st = st)
   \<and> (\<forall>q. map_of (questionStates st) k = Some q
          \<and> (selectedAnswer q = None \<or> selectedAnswer q = Some [] \<or> submitted q)
        \<longrightarrow> submitQuestion k p st = st)
   \<and> (\<forall>q a. map_of (questionStates st) k = Some q \<and> selectedAnswer q = Some a \<and> a \<noteq> []
            \<and> \<not> submitted q
        \<longrightarrow> map_of (questionStates (submitQuestion k p st)) k
              = Some (q\<lparr>submitted := True,
                        isCorrect := Some (a = getCorrectAnswer p),
                        score := (if a = getCorrectAnswer p then max 0 (4 - hintsUsed q) else 0)\<rparr>)
            \<and> (\<forall>k'. k' \<noteq> k \<longrightarrow>
                  map_of (questionStates (submitQuestion k p st)) k' = map_of (questionStates st) k')
            \<and> submitQuestion k p st = st\<lparr>questionStates := questionStates (submitQuestion k p st)\<rparr>
            \<and> 0 \<le> score (spreadQ (questionStates (submitQuestion k p st)) k)
            \<and> (4 \<le> hintsUsed q \<or> a \<noteq> getCorrectAnswer p
                 \<longrightarrow> score (spreadQ (questionStates (submitQuestion k p st)) k) = 0))"
  by (auto simp: submitQuestion_def Let_def spreadQ_def update_conv' split: option.splits)

text \<open>
  The scores of the specification: a correct answer with 0, 2 and 5 hints scores 4, 2
  and 0; a wrong answer scores 0; without a selection nothing happens.
\<close>

theorem submitQuestion_spec_witness:
  "map_of (questionStates (submitQuestion (str ''0-0'') (problemWithAnswer (Some (ArrayA [str ''1''])))
       (initialHome\<lparr>questionStates := [(str ''0-0'',
          \<lparr>selectedAnswer = Some (str ''A''), submitted = False, hintsUsed = 0, score = 0,
           isCorrect = None\<rparr>)]\<rparr>))) (str ''0-0'')
     = Some \<lparr>selectedAnswer = Some (str ''A''), submitted = True, hintsUsed = 0, score = 4,
             isCorrect = Some True\<rparr>
   \<and> map_of (questionStates (submitQuestion (str ''0-0'') (problemWithAnswer (Some (ArrayA [str ''1''])))
       (initialHome\<lparr>questionStates := [(str ''0-0'',
          \<lparr>selectedAnswer = Some (str ''A''), submitted = False, hintsUsed = 2, score = 0,
           isCorrect = None\<rparr>)]\<rparr>))) (str ''0-0'')
     = Some \<lparr>selectedAnswer = Some (str ''A''), submitted = True, hintsUsed = 2, score = 2,
             isCorrect = Some True\<rparr>
   \<and> map_of (questionStates (submitQuestion (str ''0-0'') (problemWithAnswer (Some (ArrayA [str ''1''])))
       (initialHome\<lparr>questionStates := [(str ''0-0'',
          \<lparr>selectedAnswer = Some (str ''A''), submitted = False, hintsUsed = 5, score = 0,
           isCorrect = None\<rparr>)]\<rparr>))) (str ''0-0'')
     = Some \<lparr>selectedAnswer = Some (str ''A''), submitted = True, hintsUsed = 5, score = 0,
             isCorrect = Some True\<rparr>
   \<and> map_of (questionStates (submitQuestion (str ''0-0'') (problemWithAnswer (Some (ArrayA [str ''1''])))
       (initialHome\<lparr>questionStates := [(str ''0-0'',
          \<lparr>selectedAnswer = Some (str ''B''), submitted = False, hintsUsed = 1, score = 0,
           isCorrect = None\<rparr>)]\<rparr>))) (str ''0-0'')
     = Some \<lparr>selectedAnswer = Some (str ''B''), submitted = True, hintsUsed = 1, score = 0,
             isCorrect = Some False\<rparr>
   \<and> submitQuestion (str ''0-0'') (problemWithAnswer (Some (ArrayA [str ''1'']))) initialHome
     = initialHome"
proof -
  let ?p = "problemWithAnswer (Some (ArrayA [str ''1'']))"
  let ?k = "str ''0-0''"
  have A: "getCorrectAnswer ?p = str ''A''"
    by (simp add: js_eval)
  have AB: "str ''A'' \<noteq> []" "str ''B'' \<noteq> []" "str ''B'' \<noteq> str ''A''"
    by (simp_all add: str_def)
  note inst = submitQuestion_spec [of _ ?k ?p]
  show ?thesis
    using
      inst [of "initialHome\<lparr>questionStates := [(?k,
          \<lparr>selectedAnswer = Some (str ''A''), submitted = False, hintsUsed = 0, score = 0,
           isCorrect = None\<rparr>)]\<rparr>"]
      inst [of "initialHome\<lparr>questionStates := [(?k,
          \<lparr>selectedAnswer = Some (str ''A''), submitted = False, hintsUsed = 2, score = 0,
           isCorrect = None\<rparr>)]\<rparr>"]
      inst [of "initialHome\<lparr>questionStates := [(?k,
          \<lparr>selectedAnswer = Some (str ''A''), submitted = False, hintsUsed = 5, score = 0,
           isCorrect = None\<rparr>)]\<rparr>"]
      inst [of "initialHome\<lparr>questionStates := [(?k,
          \<lparr>selectedAnswer = Some (str ''B''), submitted = False, hintsUsed = 1, score = 0,
           isCorrect = None\<rparr>)]\<rparr>"]
      inst [of initialHome]
    by (simp add: A AB initialHome_def)
qed

text \<open>
  C2, at the inputs where the code leaves it. For the empty string, for \<open>null\<close> and for
  an array whose first element is the empty string, \<open>Number(rawAnswer)\<close> is 0 and not
  NaN, so the first branch returns \<open>String.fromCharCode(64)\<close>, the string \<open>@\<close>, and
  never reaches \<open>String(rawAnswer || '')\<close>. An absent answer and the empty array do
  give the empty string.
\<close>

theorem getCorrectAnswer_empty_string:
  "getCorrectAnswer (problemWithAnswer (Some (StringA []))) = str ''@''
   \<and> getCorrectAnswer (problemWithAnswer (Some NullA)) = str ''@''
   \<and> getCorrectAnswer (problemWithAnswer (Some (ArrayA [[]]))) = str ''@''
   \<and> getCorrectAnswer (problemWithAnswer (Some (StringA (str '' '')))) = str ''@''
   \<and> str ''@'' \<noteq> []
   \<and> getCorrectAnswer (problemWithAnswer None) = []
   \<and> getCorrectAnswer (problemWithAnswer (Some (ArrayA []))) = []"
  by (simp add: js_eval)

text \<open>
  C3. When a hint request fails, the handler leaves \<open>questionStates\<close> as it is (so
  \<open>hintsUsed\<close> and what a later \<open>submitQuestion\<close> scores), leaves the hints of the key
  as they are, sets \<open>hintLoading\<close> to false and \<open>hintError\<close> to the message, and touches
  no other field, no other key and no other part of the state.
\<close>

theorem generateHint_failure:
  "failed reply \<Longrightarrow>
     questionStates (generateHint_done k reply st) = questionStates st
   \<and> hintsUsed (spreadQ (questionStates (generateHint_done k reply st)) k)
       = hintsUsed (spreadQ (questionStates st) k)
   \<and> aiHints (spreadS (solutions (generateHint_done k reply st)) k)
       = aiHints (spreadS (solutions st) k)
   \<and> length (aiHints (spreadS (solutions (generateHint_done k reply st)) k))
       = length (aiHints (spreadS (solutions st) k))
   \<and> \<not> hintLoading (spreadS (solutions (generateHint_done k reply st)) k)
   \<and> map_of (solutions (generateHint_done k reply st)) k
       = Some ((spreadS (solutions st) k)\<lparr>hintLoading := False,
                                          hintError := Some (hintFailureMessage reply)\<rparr>)
   \<and> (\<forall>k'. k' \<noteq> k \<longrightarrow>
         map_of (solutions (generateHint_done k reply st)) k' = map_of (solutions st) k')
   \<and> generateHint_done k reply st = st\<lparr>solutions := solutions (generateHint_done k reply st)\<rparr>
   \<and> (\<forall>p. questionStates (submitQuestion k p (generateHint_done k reply st))
           = questionStates (submitQuestion k p st))"
proof -
  assume f: "failed reply"
  let ?st' = "generateHint_done k reply st"
  have q: "questionStates ?st' = questionStates st"
    by (simp add: generateHint_done_failed [OF f])
  have sub: "\<forall>p. questionStates (submitQuestion k p ?st') = questionStates (submitQuestion k p st)"
    using submitQuestion_questionStates_cong [OF q] by blast
  show ?thesis
    using sub by (simp add: generateHint_done_failed [OF f] spreadS_update_same update_conv')
qed

text \<open>
  A question with one hint, whose second request is answered with status 500 and the
  endpoint's error text.
\<close>

theorem generateHint_failure_witness:
  "failed (Error_reply (Some (str ''Failed to generate solution'')))
   \<and> map_of (solutions (generateHint_done (str ''0-0'')
        (Error_reply (Some (str ''Failed to generate solution'')))
        (fst (generateHint (str ''0-0'') (problemWithAnswer (Some (ArrayA [str ''1''])))
           (generateHint_done (str ''0-0'') (Ok_reply (str ''first hint'')) initialHome)))))
        (str ''0-0'')
     = Some \<lparr>hintLoading = False, solutionLoading = False, aiHints = [str ''first hint''],
             aiSolution = None, hintError = Some (str ''Failed to generate solution''),
             solutionError = None, showPanel = True\<rparr>
   \<and> map_of (questionStates (generateHint_done (str ''0-0'')
        (Error_reply (Some (str ''Failed to generate solution'')))
        (fst (generateHint (str ''0-0'') (problemWithAnswer (Some (ArrayA [str ''1''])))
           (generateHint_done (str ''0-0'') (Ok_reply (str ''first hint'')) initialHome)))))
        (str ''0-0'')
     = Some \<lparr>selectedAnswer = None, submitted = False, hintsUsed = 1, score = 0,
             isCorrect = None\<rparr>"
proof -
  have f: "failed (Error_reply (Some (str ''Failed to generate solution'')))"
    by (simp add: failed_def)
  have m: "hintFailureMessage (Error_reply (Some (str ''Failed to generate solution'')))
             = str ''Failed to generate solution''"
    by (simp add: hintFailureMessage_def orDefault_def str_def)
  show ?thesis
    using f generateHint_failure [OF f, of "str ''0-0''"
        "fst (generateHint (str ''0-0'') (problemWithAnswer (Some (ArrayA [str ''1''])))
           (generateHint_done (str ''0-0'') (Ok_reply (str ''first hint'')) initialHome))"]
    by (simp add: m generateHint_def generateHint_pending_def generateHint_done_ok
          initialHome_def spreadS_def spreadQ_def noSolutionState_def noQuestionState_def
          Let_def)
qed

text \<open>
  C4. When a hint request succeeds, the returned text goes to the end of the hints of
  the key, the hints before it unchanged, and \<open>hintsUsed\<close> of the key grows by exactly
  1. The entry of the key changes in nothing else but \<open>hintLoading\<close>, and no other key
  changes.
\<close>

theorem generateHint_success:
  "aiHints (spreadS (solutions (generateHint_done k (Ok_reply s) st)) k)
       = aiHints (spreadS (solutions st) k) @ [s]
   \<and> hintsUsed (spreadQ (questionStates (generateHint_done k (Ok_reply s) st)) k)
       = hintsUsed (spreadQ (questionStates st) k) + 1
   \<and> map_of (solutions (generateHint_done k (Ok_reply s) st)) k
       = Some ((spreadS (solutions st) k)\<lparr>hintLoading := False,
                 aiHints := aiHints (spreadS (solutions st) k) @ [s]\<rparr>)
   \<and> map_of (questionStates (generateHint_done k (Ok_reply s) st)) k
       = Some ((spreadQ (questionStates st) k)\<lparr>
                 hintsUsed := hintsUsed (spreadQ (questionStates st) k) + 1\<rparr>)
   \<and> (\<forall>k'. k' \<noteq> k \<longrightarrow>
         map_of (solutions (generateHint_done k (Ok_reply s) st)) k' = map_of (solutions st) k'
         \<and> map_of (questionStates (generateHint_done k (Ok_reply s) st)) k'
             = map_of (questionStates st) k')"
  by (simp add: generateHint_done_ok spreadS_update_same spreadQ_update_same update_conv')

text \<open>A second hint is appended to the first, and the other question stays without an entry.\<close>

theorem generateHint_success_witness:
  "aiHints (spreadS (solutions (generateHint_done (str ''0-0'') (Ok_reply (str ''second hint''))
       (generateHint_done (str ''0-0'') (Ok_reply (str ''first hint'')) initialHome))) (str ''0-0''))
     = [str ''first hint'', str ''second hint'']
   \<and> hintsUsed (spreadQ (questionStates (generateHint_done (str ''0-0'') (Ok_reply (str ''second hint''))
       (generateHint_done (str ''0-0'') (Ok_reply (str ''first hint'')) initialHome))) (str ''0-0''))
     = 2
   \<and> str ''0-1'' \<noteq> str ''0-0''
   \<and> map_of (questionStates (generateHint_done (str ''0-0'') (Ok_reply (str ''second hint''))
       (generateHint_done (str ''0-0'') (Ok_reply (str ''first hint'')) initialHome))) (str ''0-1'')
     = None"
proof -
  have ne: "str ''0-1'' \<noteq> str ''0-0''"
    by (simp add: str_def)
  have one: "aiHints (spreadS (solutions
               (generateHint_done (str ''0-0'') (Ok_reply (str ''first hint'')) initialHome))
               (str ''0-0'')) = [str ''first hint'']"
    "hintsUsed (spreadQ (questionStates
               (generateHint_done (str ''0-0'') (Ok_reply (str ''first hint'')) initialHome))
               (str ''0-0'')) = 1"
    "map_of (questionStates
               (generateHint_done (str ''0-0'') (Ok_reply (str ''first hint'')) initialHome))
               (str ''0-1'') = None"
    using ne
    by (simp_all add: generateHint_done_ok initialHome_def spreadS_def spreadQ_def
          noSolutionState_def noQuestionState_def update_conv')
  show ?thesis
    using generateHint_success [of "str ''0-0''" "str ''second hint''"
        "generateHint_done (str ''0-0'') (Ok_reply (str ''first hint'')) initialHome"] ne
    by (simp add: one)
qed

text \<open>
  C5. \<open>selectAnswer\<close> leaves the whole state as it is when the test is submitted, for
  every key, and when the question of the key is submitted. Otherwise it sets
  \<open>selectedAnswer\<close> of the key to the given letter, whatever was selected before, with
  \<open>submitted\<close> false and \<open>score\<close> 0, and changes nothing else.
\<close>

theorem selectAnswer_spec:
  "(testSubmitted st \<longrightarrow> selectAnswer k a st = st)
   \<and> (\<forall>q. map_of (questionStates st) k = Some q \<and> submitted q \<longrightarrow> selectAnswer k a st = st)
   \<and> (\<not> testSubmitted st \<and> \<not> submitted (spreadQ (questionStates st) k) \<longrightarrow>
        map_of (questionStates (selectAnswer k a st)) k
          = Some ((spreadQ (questionStates st) k)\<lparr>selectedAnswer := Some a, submitted := False,
                                                  score := 0\<rparr>)
        \<and> (\<forall>k'. k' \<noteq> k \<longrightarrow>
              map_of (questionStates (selectAnswer k a st)) k' = map_of (questionStates st) k')
        \<and> selectAnswer k a st = st\<lparr>questionStates := questionStates (selectAnswer k a st)\<rparr>)"
  by (auto simp: selectAnswer_def Let_def spreadQ_Some update_conv')

text \<open>
  A selection is overwritten while the question is open, and a further one is ignored
  after \<open>submitQuestion\<close> for the key and after \<open>submitTest\<close>.
\<close>

theorem selectAnswer_spec_witness:
  "map_of (questionStates (selectAnswer (str ''0-0'') (str ''A'')
       (selectAnswer (str ''0-0'') (str ''B'') initialHome))) (str ''0-0'')
     = Some \<lparr>selectedAnswer = Some (str ''A''), submitted = False, hintsUsed = 0, score = 0,
             isCorrect = None\<rparr>
   \<and> selectAnswer (str ''0-0'') (str ''A'')
       (submitQuestion (str ''0-0'') (problemWithAnswer (Some (ArrayA [str ''1''])))
          (selectAnswer (str ''0-0'') (str ''B'') initialHome))
     = submitQuestion (str ''0-0'') (problemWithAnswer (Some (ArrayA [str ''1''])))
          (selectAnswer (str ''0-0'') (str ''B'') initialHome)
   \<and> selectAnswer (str ''0-1'') (str ''A'')
       (submitTest (selectAnswer (str ''0-0'') (str ''B'') initialHome))
     = submitTest (selectAnswer (str ''0-0'') (str ''B'') initialHome)"
proof -
  let ?k = "str ''0-0''"
  let ?p = "problemWithAnswer (Some (ArrayA [str ''1'']))"
  let ?st1 = "selectAnswer ?k (str ''B'') initialHome"
  have st1: "?st1 = initialHome\<lparr>questionStates := [(?k,
               \<lparr>selectedAnswer = Some (str ''B''), submitted = False, hintsUsed = 0, score = 0,
                isCorrect = None\<rparr>)]\<rparr>"
    by (simp add: selectAnswer_def initialHome_def spreadQ_def noQuestionState_def Let_def)
  have B: "str ''B'' \<noteq> []"
    by (simp add: str_def)
  have sub: "map_of (questionStates (submitQuestion ?k ?p ?st1)) ?k
               = Some \<lparr>selectedAnswer = Some (str ''B''), submitted = True, hintsUsed = 0,
                       score = 0, isCorrect = Some False\<rparr>"
    unfolding st1 by (simp add: submitQuestion_def B js_eval initialHome_def Let_def spreadQ_def)
  have open1: "\<not> testSubmitted ?st1" "\<not> submitted (spreadQ (questionStates ?st1) ?k)"
    "spreadQ (questionStates ?st1) ?k
       = \<lparr>selectedAnswer = Some (str ''B''), submitted = False, hintsUsed = 0, score = 0,
          isCorrect = None\<rparr>"
    unfolding st1 by (simp_all add: initialHome_def spreadQ_def)
  have closed: "testSubmitted (submitTest ?st1)"
    by (simp add: submitTest_def)
  show ?thesis
    using selectAnswer_spec [of ?st1 ?k "str ''A''"]
      selectAnswer_spec [of "submitQuestion ?k ?p ?st1" ?k "str ''A''"]
      selectAnswer_spec [of "submitTest ?st1" "str ''0-1''" "str ''A''"]
      open1 closed sub
    by simp
qed

text \<open>
  C6 as the specification states it fails: \<open>generateHint\<close> called for a key whose
  \<open>hintLoading\<close> is true posts a second request.
\<close>

theorem generateHint_pending_counterexample:
  "hintLoading (spreadS (solutions
       (fst (generateHint (str ''0-0'') (problemWithAnswer (Some (ArrayA [str ''1'']))) initialHome)))
       (str ''0-0''))
   \<and> snd (generateHint (str ''0-0'') (problemWithAnswer (Some (ArrayA [str ''1''])))
       (fst (generateHint (str ''0-0'') (problemWithAnswer (Some (ArrayA [str ''1'']))) initialHome)))
     = [\<lparr>questionText = str ''Which one?'', passageText = None,
         options' = Some [str ''w'', str ''x'', str ''y'', str ''z''], type' = str ''hint'',
         previousHints = Some [], customPrompt = Some []\<rparr>]
   \<and> snd (generateHint (str ''0-0'') (problemWithAnswer (Some (ArrayA [str ''1''])))
       (fst (generateHint (str ''0-0'') (problemWithAnswer (Some (ArrayA [str ''1'']))) initialHome)))
     \<noteq> []"
  by (simp add: generateHint_def generateHint_pending_def generateHint_body_def initialHome_def
        spreadS_def noSolutionState_def problemWithAnswer_def DEFAULT_PROMPT_PLACEHOLDER_def
        Let_def str_def)

text \<open>
  C6, amended. \<open>generateHint\<close> has no test of the pending flag: every call posts one
  request, which carries the hints of the key as \<open>previousHints\<close>, and leaves the entry
  of the key with \<open>hintLoading\<close> and \<open>showPanel\<close> true and the hints untouched. The
  flag is read by the hint button alone: while \<open>hintLoading\<close> is true for the key the
  button is disabled, and a click posts nothing and leaves the state as it is.
\<close>

theorem generateHint_unguarded:
  "snd (generateHint k p st) = [generateHint_body k p st]
   \<and> previousHints (generateHint_body k p st) = Some (aiHints (spreadS (solutions st) k))
   \<and> hintLoading (spreadS (solutions (fst (generateHint k p st))) k)
   \<and> aiHints (spreadS (solutions (fst (generateHint k p st))) k)
       = aiHints (spreadS (solutions st) k)
   \<and> map_of (solutions (fst (generateHint k p st))) k
       = Some ((spreadS (solutions st) k)\<lparr>hintLoading := True, showPanel := True\<rparr>)
   \<and> hintButton_disabled k st = hintLoading (spreadS (solutions st) k)
   \<and> (hintLoading (spreadS (solutions st) k) \<longrightarrow> hintButton_onClick k p st = (st, []))"
  by (simp add: generateHint_def generateHint_pending_def generateHint_body_def Let_def
        spreadS_update_same update_conv' hintButton_onClick_def hintButton_disabled_def)

text \<open>While the first request is pending, a click on the hint button does nothing.\<close>

theorem generateHint_unguarded_witness:
  "hintLoading (spreadS (solutions
       (fst (generateHint (str ''0-0'') (problemWithAnswer (Some (ArrayA [str ''1'']))) initialHome)))
       (str ''0-0''))
   \<and> hintButton_onClick (str ''0-0'') (problemWithAnswer (Some (ArrayA [str ''1''])))
       (fst (generateHint (str ''0-0'') (problemWithAnswer (Some (ArrayA [str ''1'']))) initialHome))
     = (fst (generateHint (str ''0-0'') (problemWithAnswer (Some (ArrayA [str ''1'']))) initialHome),
        [])"
proof -
  let ?k = "str ''0-0''"
  let ?p = "problemWithAnswer (Some (ArrayA [str ''1'']))"
  have pending: "hintLoading (spreadS (solutions (fst (generateHint ?k ?p initialHome))) ?k)"
    using generateHint_unguarded [of ?k ?p initialHome] by simp
  show ?thesis
    using pending generateHint_unguarded [of ?k ?p "fst (generateHint ?k ?p initialHome)"]
    by simp
qed

text \<open>
  C7. A solution request that succeeds sets \<open>aiSolution\<close> of the key to the returned
  text, whatever it was before, and leaves the hints as they are. One that fails leaves
  \<open>aiSolution\<close> as it is: it sets \<open>solutionError\<close> to the message and
  \<open>solutionLoading\<close> to false, and touches no other field, no other key and no other
  part of the state.
\<close>

theorem generateSolution_done_spec:
  "aiSolution (spreadS (solutions (generateSolution_done k (Ok_reply s) st)) k) = Some s
   \<and> map_of (solutions (generateSolution_done k (Ok_reply s) st)) k
       = Some ((spreadS (solutions st) k)\<lparr>solutionLoading := False, aiSolution := Some s\<rparr>)
   \<and> aiHints (spreadS (solutions (generateSolution_done k (Ok_reply s) st)) k)
       = aiHints (spreadS (solutions st) k)
   \<and> (failed reply \<longrightarrow>
        aiSolution (spreadS (solutions (generateSolution_done k reply st)) k)
          = aiSolution (spreadS (solutions st) k)
        \<and> map_of (solutions (generateSolution_done k reply st)) k
          = Some ((spreadS (solutions st) k)\<lparr>solutionLoading := False,
                    solutionError := Some (solutionFailureMessage reply)\<rparr>)
        \<and> (\<forall>k'. k' \<noteq> k \<longrightarrow>
              map_of (solutions (generateSolution_done k reply st)) k' = map_of (solutions st) k')
        \<and> generateSolution_done k reply st
          = st\<lparr>solutions := solutions (generateSolution_done k reply st)\<rparr>)"
  by (simp add: generateSolution_done_ok generateSolution_done_failed spreadS_update_same
        update_conv')

text \<open>
  A solution, then a request that throws and keeps it, then a new solution that replaces
  it.
\<close>

theorem generateSolution_done_spec_witness:
  "failed (Thrown None)
   \<and> map_of (solutions (generateSolution_done (str ''0-0'') (Thrown None)
        (generateSolution_done (str ''0-0'') (Ok_reply (str ''first'')) initialHome)))
        (str ''0-0'')
     = Some \<lparr>hintLoading = False, solutionLoading = False, aiHints = [],
             aiSolution = Some (str ''first''), hintError = None,
             solutionError = Some (str ''Failed to generate solution''), showPanel = False\<rparr>
   \<and> aiSolution (spreadS (solutions (generateSolution_done (str ''0-0'') (Ok_reply (str ''second''))
        (generateSolution_done (str ''0-0'') (Thrown None)
           (generateSolution_done (str ''0-0'') (Ok_reply (str ''first'')) initialHome))))
        (str ''0-0''))
     = Some (str ''second'')"
proof -
  let ?k = "str ''0-0''"
  let ?st1 = "generateSolution_done ?k (Ok_reply (str ''first'')) initialHome"
  have f: "failed (Thrown None)"
    by (simp add: failed_def)
  have m: "solutionFailureMessage (Thrown None) = str ''Failed to generate solution''"
    by (simp add: solutionFailureMessage_def)
  have st1: "spreadS (solutions ?st1) ?k
               = \<lparr>hintLoading = False, solutionLoading = False, aiHints = [],
                  aiSolution = Some (str ''first''), hintError = None, solutionError = None,
                  showPanel = False\<rparr>"
    by (simp add: generateSolution_done_ok spreadS_update_same initialHome_def spreadS_def
          noSolutionState_def)
  show ?thesis
    using f generateSolution_done_spec [of ?k "str ''first''" initialHome "Thrown None"]
      generateSolution_done_spec [of ?k "str ''second''" ?st1 "Thrown None"]
      generateSolution_done_spec [of ?k "str ''second''"
        "generateSolution_done ?k (Thrown None) ?st1" "Thrown None"]
    by (simp add: m st1)
qed

text \<open>
  C8. \<open>calculateTotalScore\<close> is the sum of \<open>score\<close> over the question states with
  \<open>submitted\<close> true and \<open>countAnsweredQuestions\<close> is their number; both are computed
  from the state of the moment. With each key once, this is the sum and the number over
  the keys whose state is submitted.
\<close>

theorem totals_spec:
  "calculateTotalScore st
     = sum_list (map score (filter submitted (Object_values (questionStates st))))
   \<and> countAnsweredQuestions st = length (filter submitted (Object_values (questionStates st)))
   \<and> (distinct (map fst (questionStates st)) \<longrightarrow>
        calculateTotalScore st
          = (\<Sum>k \<in> {k \<in> dom (map_of (questionStates st)).
                       submitted (the (map_of (questionStates st) k))}.
               score (the (map_of (questionStates st) k)))
        \<and> countAnsweredQuestions st
          = card {k \<in> dom (map_of (questionStates st)).
                    submitted (the (map_of (questionStates st) k))})"
proof -
  let ?r = "questionStates st"
  have total: "calculateTotalScore st = sum_list (map score (filter submitted (Object_values ?r)))"
    by (rule calculateTotalScore_sum)
  have answered:
    "countAnsweredQuestions st = length (filter submitted (Object_values ?r))"
    by (simp only: countAnsweredQuestions_def)
  have keys: "distinct (map fst ?r) \<longrightarrow>
        calculateTotalScore st
          = (\<Sum>k \<in> {k \<in> dom (map_of ?r). submitted (the (map_of ?r k))}.
               score (the (map_of ?r k)))
        \<and> countAnsweredQuestions st
          = card {k \<in> dom (map_of ?r). submitted (the (map_of ?r k))}"
    unfolding total answered Object_values_def
    using sum_over_keys [of ?r score submitted] length_filter_over_keys [of ?r submitted]
    by blast
  from total answered keys show ?thesis by blast
qed

text \<open>
  Three questions: one submitted and correct with one hint (3 points), one submitted and
  wrong (0 points), one not submitted. The total is 3 and two are answered.
\<close>

theorem totals_spec_witness:
  "distinct (map fst
     [(str ''0-0'', \<lparr>selectedAnswer = Some (str ''A''), submitted = True, hintsUsed = 1,
                     score = 3, isCorrect = Some True\<rparr>),
      (str ''0-1'', \<lparr>selectedAnswer = Some (str ''B''), submitted = True, hintsUsed = 0,
                     score = 0, isCorrect = Some False\<rparr>),
      (str ''0-2'', \<lparr>selectedAnswer = Some (str ''C''), submitted = False, hintsUsed = 0,
                     score = 0, isCorrect = None\<rparr>)])
   \<and> calculateTotalScore (initialHome\<lparr>questionStates :=
       [(str ''0-0'', \<lparr>selectedAnswer = Some (str ''A''), submitted = True, hintsUsed = 1,
                       score = 3, isCorrect = Some True\<rparr>),
        (str ''0-1'', \<lparr>selectedAnswer = Some (str ''B''), submitted = True, hintsUsed = 0,
                       score = 0, isCorrect = Some False\<rparr>),
        (str ''0-2'', \<lparr>selectedAnswer = Some (str ''C''), submitted = False, hintsUsed = 0,
                       score = 0, isCorrect = None\<rparr>)]\<rparr>) = 3
   \<and> countAnsweredQuestions (initialHome\<lparr>questionStates :=
       [(str ''0-0'', \<lparr>selectedAnswer = Some (str ''A''), submitted = True, hintsUsed = 1,
                       score = 3, isCorrect = Some True\<rparr>),
        (str ''0-1'', \<lparr>selectedAnswer = Some (str ''B''), submitted = True, hintsUsed = 0,
                       score = 0, isCorrect = Some False\<rparr>),
        (str ''0-2'', \<lparr>selectedAnswer = Some (str ''C''), submitted = False, hintsUsed = 0,
                       score = 0, isCorrect = None\<rparr>)]\<rparr>) = 2"
  using totals_spec [of "initialHome\<lparr>questionStates :=
       [(str ''0-0'', \<lparr>selectedAnswer = Some (str ''A''), submitted = True, hintsUsed = 1,
                       score = 3, isCorrect = Some True\<rparr>),
        (str ''0-1'', \<lparr>selectedAnswer = Some (str ''B''), submitted = True, hintsUsed = 0,
                       score = 0, isCorrect = Some False\<rparr>),
        (str ''0-2'', \<lparr>selectedAnswer = Some (str ''C''), submitted = False, hintsUsed = 0,
                       score = 0, isCorrect = None\<rparr>)]\<rparr>"]
  by (simp add: Object_values_def str_def)

text \<open>
  C9, at an input where the code leaves it. The question text \<open>Find $$x$$\<close> is sent
  for a hint on the default template. \<open>String.prototype.replace\<close> reads \<open>$$\<close> in the
  replacement text as one \<open>$\<close>, so the prompt holds \<open>Find $x$\<close>, and it is not the
  template with the question content and the hint instructions substituted verbatim.
\<close>

theorem finalPrompt_collapses_dollars:
  "finalPrompt \<lparr>questionText = str ''Find $$x$$'', passageText = None, options' = None,
       type' = str ''hint'', previousHints = Some [], customPrompt = None\<rparr>
     = (join nl hintPromptIntro @ nl)
         @ (str ''**Question:**'' @ nl @ str ''Find $x$'' @ nl @ nl)
         @ (nl @ nl @ str ''---'' @ nl @ nl)
         @ str ''Provide a helpful hint to guide toward solving this problem. Do NOT reveal the final answer.''
   \<and> questionContent \<lparr>questionText = str ''Find $$x$$'', passageText = None, options' = None,
       type' = str ''hint'', previousHints = Some [], customPrompt = None\<rparr>
     = str ''**Question:**'' @ nl @ str ''Find $$x$$'' @ nl @ nl
   \<and> finalPrompt \<lparr>questionText = str ''Find $$x$$'', passageText = None, options' = None,
       type' = str ''hint'', previousHints = Some [], customPrompt = None\<rparr>
     \<noteq> substituteVerbatim
         (substituteVerbatim DEFAULT_HINT_PROMPT (str ''{{QUESTION_CONTENT}}'')
            (str ''**Question:**'' @ nl @ str ''Find $$x$$'' @ nl @ nl))
         (str ''{{HINT_INSTRUCTIONS}}'')
         (str ''Provide a helpful hint to guide toward solving this problem. Do NOT reveal the final answer.'')"
proof -
  let ?body = "\<lparr>questionText = str ''Find $$x$$'', passageText = None, options' = None,
       type' = str ''hint'', previousHints = Some [], customPrompt = None\<rparr>"
  let ?H = "join nl hintPromptIntro @ nl"
  let ?M = "nl @ nl @ str ''---'' @ nl @ nl"
  let ?g = "str ''**Question:**'' @ nl @ str ''Find $x$'' @ nl @ nl"
  let ?v = "str ''**Question:**'' @ nl @ str ''Find $$x$$'' @ nl @ nl"
  let ?hi = "str ''Provide a helpful hint to guide toward solving this problem. Do NOT reveal the final answer.''"
  have tmpl: "promptTemplate ?body = DEFAULT_HINT_PROMPT"
    by (simp add: promptTemplate_def orDefault_def)
  have qc: "questionContent ?body = ?v"
    by (simp add: questionContent_def)
  have hi: "hintInstructions ?body = ?hi"
    by (simp add: hintInstructions_def)
  have sub: "GetSubstitution m b a ?v = ?g" for m b a
    by (simp add: str_def nl_def)
  have g: "123 \<notin> set ?g" by (simp add: str_def nl_def)
  have v: "123 \<notin> set ?v" by (simp add: str_def nl_def)
  have h: "36 \<notin> set ?hi" "123 \<notin> set ?hi" by (simp_all add: str_def)
  have H: "123 \<notin> set ?H"
    using hintPromptIntro_no_brace by (simp add: nl_def)
  have M: "123 \<notin> set ?M"
    by (simp add: nl_def str_def)
  have code: "finalPrompt ?body = ?H @ ?g @ ?M @ ?hi"
  proof -
    have q': "GetSubstitution (str ''{{QUESTION_CONTENT}}'') (join nl hintPromptIntro @ nl)
              ((nl @ nl @ str ''---'' @ nl @ nl) @ str ''{{HINT_INSTRUCTIONS}}'')
              (questionContent ?body) = ?g"
      unfolding qc by (rule sub)
    have h1: "36 \<notin> set (hintInstructions ?body)"
      unfolding hi by (rule h(1))
    have h2: "123 \<notin> set (hintInstructions ?body)"
      unfolding hi by (rule h(2))
    from finalPrompt_default_hint [OF tmpl q' g h1 h2] show ?thesis
      unfolding hi by simp
  qed
  have v1: "substituteVerbatim DEFAULT_HINT_PROMPT (str ''{{QUESTION_CONTENT}}'') ?v
              = ?H @ ?v @ ?M @ str ''{{HINT_INSTRUCTIONS}}''"
    unfolding DEFAULT_HINT_PROMPT_parts
    using substituteVerbatim_fresh [OF H, of "str ''{QUESTION_CONTENT}}''"
            "?M @ str ''{{HINT_INSTRUCTIONS}}''" ?v]
    by (simp add: token_heads)
  have a2: "123 \<notin> set (?H @ ?v @ ?M)"
    using H M v by simp
  have v2: "substituteVerbatim (?H @ ?v @ ?M @ str ''{{HINT_INSTRUCTIONS}}'')
              (str ''{{HINT_INSTRUCTIONS}}'') ?hi = ?H @ ?v @ ?M @ ?hi"
    using substituteVerbatim_fresh [OF a2, of "str ''{HINT_INSTRUCTIONS}}''" "[]" ?hi]
    by (simp add: token_heads)
  have len: "length ?g \<noteq> length ?v" by (simp add: str_def nl_def)
  have differ: "?H @ ?g @ ?M @ ?hi \<noteq> ?H @ ?v @ ?M @ ?hi"
  proof
    assume "?H @ ?g @ ?M @ ?hi = ?H @ ?v @ ?M @ ?hi"
    then have "length (?g @ ?M @ ?hi) = length (?v @ ?M @ ?hi)"
      by (simp only: same_append_eq)
    then show False using len by simp
  qed
  show ?thesis
    unfolding v1 v2 code qc using differ by simp
qed

text \<open>
  C10. \<open>submitTest\<close> sets \<open>testSubmitted\<close> and nothing else: the question states and
  the solution states are as before, a second call changes nothing, and both totals are
  as before, so a question that was not submitted still counts for nothing in either.
\<close>

theorem submitTest_spec:
  "testSubmitted (submitTest st)
   \<and> submitTest st = st\<lparr>testSubmitted := True\<rparr>
   \<and> questionStates (submitTest st) = questionStates st
   \<and> solutions (submitTest st) = solutions st
   \<and> submitTest (submitTest st) = submitTest st
   \<and> calculateTotalScore (submitTest st) = calculateTotalScore st
   \<and> countAnsweredQuestions (submitTest st) = countAnsweredQuestions st
   \<and> calculateTotalScore (submitTest st)
       = sum_list (map score (filter submitted (Object_values (questionStates st))))
   \<and> countAnsweredQuestions (submitTest st)
       = length (filter submitted (Object_values (questionStates st)))"
  by (simp add: submitTest_def calculateTotalScore_sum countAnsweredQuestions_def)

end
